theory Spec2Isabelle
  imports Main
begin

section \<open>JSON payloads and the Python operations applied to them\<close>

text \<open>
  The feedback store of \<^verbatim>\<open>backend/open_webui/models/feedbacks.py\<close> keeps three JSON
  columns (\<^verbatim>\<open>data\<close>, \<^verbatim>\<open>meta\<close>, \<^verbatim>\<open>snapshot\<close>) and walks through the chat snapshot with
  plain Python subscripting. A JSON value is \<^verbatim>\<open>None\<close>, a \<^verbatim>\<open>bool\<close>, an \<^verbatim>\<open>int\<close>, a
  \<^verbatim>\<open>str\<close>, a \<^verbatim>\<open>list\<close> or a \<^verbatim>\<open>dict\<close> with string keys; a dict is an association list
  in insertion order. Numbers are integers: floating-point payloads are not part of this
  development.
\<close>

datatype json = JNull | JBool bool | JInt int | JStr string
  | JArr "json list" | JObj "(string \<times> json) list"

type_synonym dict = "(string \<times> json) list"

text \<open>The exceptions that can be raised inside the store's methods.\<close>

datatype error = KeyError | TypeError | IndexError | AttributeError
  | ValidationError | DBError | SinkError

text \<open>Truth value of an object in a condition (\<^verbatim>\<open>if x:\<close>, \<^verbatim>\<open>x and y\<close>).\<close>

fun py_truthy :: "json \<Rightarrow> bool" where
  "py_truthy JNull = False"
| "py_truthy (JBool b) = b"
| "py_truthy (JInt i) = (i \<noteq> 0)"
| "py_truthy (JStr s) = (s \<noteq> [])"
| "py_truthy (JArr xs) = (xs \<noteq> [])"
| "py_truthy (JObj kvs) = (kvs \<noteq> [])"

text \<open>Python's \<^verbatim>\<open>==\<close> on these values: \<^verbatim>\<open>True == 1\<close>, lists compare element by element,
  dicts compare as mappings.\<close>

fun py_eq :: "json \<Rightarrow> json \<Rightarrow> bool" where
  "py_eq JNull JNull = True"
| "py_eq (JBool a) (JBool b) = (a = b)"
| "py_eq (JBool a) (JInt j) = ((if a then 1 else 0) = j)"
| "py_eq (JInt i) (JBool b) = (i = (if b then 1 else 0))"
| "py_eq (JInt i) (JInt j) = (i = j)"
| "py_eq (JStr s) (JStr t) = (s = t)"
| "py_eq (JArr xs) (JArr ys) = list_all2 py_eq xs ys"
| "py_eq (JObj a) (JObj b) =
     (set (map fst a) = set (map fst b) \<and>
      list_all (\<lambda>(k, v). case map_of b k of Some w \<Rightarrow> py_eq v w | None \<Rightarrow> False) a)"
| "py_eq _ _ = False"

text \<open>Lists and dicts are unhashable: using one as a dict key raises \<^verbatim>\<open>TypeError\<close>.\<close>

fun py_hashable :: "json \<Rightarrow> bool" where
  "py_hashable (JArr xs) = False"
| "py_hashable (JObj kvs) = False"
| "py_hashable _ = True"

text \<open>A value usable as a sequence index: an \<^verbatim>\<open>int\<close>, or a \<^verbatim>\<open>bool\<close> (a subclass of
  \<^verbatim>\<open>int\<close>).\<close>

fun py_index :: "json \<Rightarrow> int option" where
  "py_index (JInt i) = Some i"
| "py_index (JBool b) = Some (if b then 1 else 0)"
| "py_index _ = None"

text \<open>\<^verbatim>\<open>seq[i]\<close>: a negative index counts from the end, anything outside raises
  \<^verbatim>\<open>IndexError\<close>.\<close>

definition seq_getitem :: "'a list \<Rightarrow> int \<Rightarrow> error + 'a" where
  "seq_getitem xs i =
     (let len = int (length xs);
          pos = (if i < 0 then i + len else i)
      in if pos < 0 \<or> len \<le> pos then Inl IndexError else Inr (xs ! nat pos))"

text \<open>\<^verbatim>\<open>container[key]\<close>.\<close>

fun py_getitem :: "json \<Rightarrow> json \<Rightarrow> error + json" where
  "py_getitem (JObj kvs) key =
     (if \<not> py_hashable key then Inl TypeError
      else case key of
             JStr s \<Rightarrow> (case map_of kvs s of Some v \<Rightarrow> Inr v | None \<Rightarrow> Inl KeyError)
           | _ \<Rightarrow> Inl KeyError)"
| "py_getitem (JArr xs) key =
     (case py_index key of Some i \<Rightarrow> seq_getitem xs i | None \<Rightarrow> Inl TypeError)"
| "py_getitem (JStr s) key =
     (case py_index key of
        Some i \<Rightarrow> (case seq_getitem s i of Inl e \<Rightarrow> Inl e | Inr c \<Rightarrow> Inr (JStr [c]))
      | None \<Rightarrow> Inl TypeError)"
| "py_getitem _ key = Inl TypeError"

text \<open>\<^verbatim>\<open>t in s\<close> on strings: \<^verbatim>\<open>t\<close> occurs as a contiguous run of \<^verbatim>\<open>s\<close>.\<close>

fun is_substring :: "string \<Rightarrow> string \<Rightarrow> bool" where
  "is_substring t [] = (t = [])"
| "is_substring t (c # cs) = (take (length t) (c # cs) = t \<or> is_substring t cs)"

text \<open>\<^verbatim>\<open>key in container\<close>.\<close>

fun py_contains :: "json \<Rightarrow> json \<Rightarrow> error + bool" where
  "py_contains key (JObj kvs) =
     (if \<not> py_hashable key then Inl TypeError
      else case key of
             JStr s \<Rightarrow> Inr (map_of kvs s \<noteq> None)
           | _ \<Rightarrow> Inr False)"
| "py_contains key (JArr xs) = Inr (list_ex (\<lambda>x. py_eq x key) xs)"
| "py_contains key (JStr s) =
     (case key of JStr t \<Rightarrow> Inr (is_substring t s) | _ \<Rightarrow> Inl TypeError)"
| "py_contains key _ = Inl TypeError"

text \<open>\<^verbatim>\<open>obj.get(name)\<close>: only a dict has the method; a missing key gives \<^verbatim>\<open>None\<close>.\<close>

fun py_get :: "json \<Rightarrow> string \<Rightarrow> error + json" where
  "py_get (JObj kvs) name = Inr (case map_of kvs name of Some v \<Rightarrow> v | None \<Rightarrow> JNull)"
| "py_get _ name = Inl AttributeError"

text \<open>A replacement field of an f-string: a \<^verbatim>\<open>str\<close> is inserted as it is, every other
  value through Python's built-in \<^verbatim>\<open>repr\<close>, which is a parameter here.\<close>

fun py_format :: "(json \<Rightarrow> string) \<Rightarrow> json \<Rightarrow> string" where
  "py_format repr (JStr s) = s"
| "py_format repr v = repr v"


section \<open>The data model\<close>

text \<open>\<^verbatim>\<open>RatingData.rating\<close> has type \<^verbatim>\<open>Optional[str | int]\<close>.\<close>

datatype rating_value = RStr string | RInt int

text \<open>The pydantic forms. Each is declared with \<^verbatim>\<open>extra="allow"\<close>: fields it does not
  declare are kept (\<open>data_extra\<close>, \<open>snapshot_extra\<close>, \<open>form_extra\<close>) and come out of
  \<^verbatim>\<open>model_dump()\<close> after the declared ones.\<close>

record RatingData =
  rating :: "rating_value option"
  model_id :: "string option"
  sibling_model_ids :: "string list option"
  reason :: "string option"
  comment :: "string option"
  data_extra :: dict

record SnapshotData =
  chat :: "dict option"
  snapshot_extra :: dict

record FeedbackForm =
  form_type :: string
  form_data :: "RatingData option"
  form_meta :: "dict option"
  form_snapshot :: "SnapshotData option"
  form_extra :: dict

text \<open>\<^verbatim>\<open>FeedbackModel\<close>, which is also the shape of a row of the \<^verbatim>\<open>feedback\<close> table
  (class \<^verbatim>\<open>Feedback\<close>, primary key \<^verbatim>\<open>id\<close>).\<close>

record FeedbackModel =
  fb_id :: string
  fb_user_id :: string
  fb_version :: int
  fb_type :: string
  fb_data :: "dict option"
  fb_meta :: "dict option"
  fb_snapshot :: "dict option"
  fb_created_at :: int
  fb_updated_at :: int

type_synonym table = "FeedbackModel list"

text \<open>One call of the memory-ingestion sink,
  \<^verbatim>\<open>pipe.add_text(text=..., collection_name=..., metadata=...)\<close>.\<close>

record sink_call =
  text_arg :: string
  collection_name :: string
  metadata :: dict

text \<open>The calls made on the database session.\<close>

datatype db_op = Query | Add | Commit | Refresh | Delete

text \<open>
  What one call of a store method reads from outside: the identifier drawn by
  \<^verbatim>\<open>str(uuid.uuid4())\<close>, the successive readings of \<^verbatim>\<open>int(time.time())\<close>, which session
  calls raise, whether building the \<^verbatim>\<open>Pipeline\<close> or its \<^verbatim>\<open>add_text\<close> raises, pydantic's
  lax conversion of a non-integer value to \<^verbatim>\<open>int\<close>, and Python's \<^verbatim>\<open>repr\<close>.
\<close>

record env =
  uuid4 :: string
  time_time :: "nat \<Rightarrow> int"
  db_raises :: "db_op \<Rightarrow> bool"
  pipeline_raises :: bool
  add_text_raises :: "sink_call \<Rightarrow> bool"
  lax_int :: "json \<Rightarrow> int option"
  py_repr :: "json \<Rightarrow> string"


section \<open>Serialisation and validation\<close>

fun json_opt :: "('a \<Rightarrow> json) \<Rightarrow> 'a option \<Rightarrow> json" where
  "json_opt f None = JNull"
| "json_opt f (Some x) = f x"

fun rating_json :: "rating_value \<Rightarrow> json" where
  "rating_json (RStr s) = JStr s"
| "rating_json (RInt i) = JInt i"

text \<open>\<^verbatim>\<open>model_dump()\<close> of the three forms: the declared fields, then the extra ones.
  Pydantic puts an input key that names a declared field into that field, so an extra
  field never carries a declared name.\<close>

definition extra_fields :: "string list \<Rightarrow> dict \<Rightarrow> dict" where
  "extra_fields declared extra = filter (\<lambda>(k, v). k \<notin> set declared) extra"

definition RatingData_dump :: "RatingData \<Rightarrow> dict" where
  "RatingData_dump d =
     [(''rating'', json_opt rating_json (rating d)),
      (''model_id'', json_opt JStr (model_id d)),
      (''sibling_model_ids'', json_opt (\<lambda>ids. JArr (map JStr ids)) (sibling_model_ids d)),
      (''reason'', json_opt JStr (reason d)),
      (''comment'', json_opt JStr (comment d))]
     @ extra_fields [''rating'', ''model_id'', ''sibling_model_ids'', ''reason'', ''comment'']
         (data_extra d)"

definition SnapshotData_dump :: "SnapshotData \<Rightarrow> dict" where
  "SnapshotData_dump s =
     [(''chat'', json_opt JObj (chat s))] @ extra_fields [''chat''] (snapshot_extra s)"

definition FeedbackForm_dump :: "FeedbackForm \<Rightarrow> dict" where
  "FeedbackForm_dump f =
     [(''type'', JStr (form_type f)),
      (''data'', json_opt (\<lambda>d. JObj (RatingData_dump d)) (form_data f)),
      (''meta'', json_opt JObj (form_meta f)),
      (''snapshot'', json_opt (\<lambda>s. JObj (SnapshotData_dump s)) (form_snapshot f))]
     @ extra_fields [''type'', ''data'', ''meta'', ''snapshot''] (form_extra f)"

text \<open>A dict display \<^verbatim>\<open>{k1: v1, **d, k2: v2}\<close> is filled from left to right: a later
  binding of a key replaces an earlier one.\<close>

definition kwargs_lookup :: "dict \<Rightarrow> string \<Rightarrow> json option" where
  "kwargs_lookup kvs = map_of (rev kvs)"

text \<open>Validation of one field of \<^verbatim>\<open>FeedbackModel\<close>: \<^verbatim>\<open>str\<close>, \<^verbatim>\<open>int\<close> and
  \<^verbatim>\<open>Optional[dict]\<close>.\<close>

fun validate_str :: "json option \<Rightarrow> error + string" where
  "validate_str (Some (JStr s)) = Inr s"
| "validate_str _ = Inl ValidationError"

fun validate_int :: "(json \<Rightarrow> int option) \<Rightarrow> json option \<Rightarrow> error + int" where
  "validate_int lax (Some (JInt i)) = Inr i"
| "validate_int lax (Some v) = (case lax v of Some i \<Rightarrow> Inr i | None \<Rightarrow> Inl ValidationError)"
| "validate_int lax None = Inl ValidationError"

fun validate_opt_dict :: "json option \<Rightarrow> error + dict option" where
  "validate_opt_dict None = Inr None"
| "validate_opt_dict (Some JNull) = Inr None"
| "validate_opt_dict (Some (JObj kvs)) = Inr (Some kvs)"
| "validate_opt_dict (Some _) = Inl ValidationError"

text \<open>Sequencing of steps that may raise: the first exception ends the computation.\<close>

fun and_then :: "error + 'a \<Rightarrow> ('a \<Rightarrow> error + 'b) \<Rightarrow> error + 'b" where
  "and_then (Inl e) f = Inl e"
| "and_then (Inr x) f = f x"

text \<open>\<^verbatim>\<open>FeedbackModel(**kwargs)\<close>: every field is read from the keyword arguments and
  validated; keys the model does not declare are ignored.\<close>

definition FeedbackModel_init :: "(json \<Rightarrow> int option) \<Rightarrow> dict \<Rightarrow> error + FeedbackModel" where
  "FeedbackModel_init lax kwargs =
     (let kw = kwargs_lookup kwargs in
      and_then (validate_str (kw ''id'')) (\<lambda>v_id.
      and_then (validate_str (kw ''user_id'')) (\<lambda>v_user_id.
      and_then (validate_int lax (kw ''version'')) (\<lambda>v_version.
      and_then (validate_str (kw ''type'')) (\<lambda>v_type.
      and_then (validate_opt_dict (kw ''data'')) (\<lambda>v_data.
      and_then (validate_opt_dict (kw ''meta'')) (\<lambda>v_meta.
      and_then (validate_opt_dict (kw ''snapshot'')) (\<lambda>v_snapshot.
      and_then (validate_int lax (kw ''created_at'')) (\<lambda>v_created_at.
      and_then (validate_int lax (kw ''updated_at'')) (\<lambda>v_updated_at.
        Inr \<lparr>fb_id = v_id, fb_user_id = v_user_id, fb_version = v_version,
             fb_type = v_type, fb_data = v_data, fb_meta = v_meta,
             fb_snapshot = v_snapshot, fb_created_at = v_created_at,
             fb_updated_at = v_updated_at\<rparr>))))))))))"


section \<open>Creating a feedback record\<close>

text \<open>The keyword arguments built at lines 104--111 of \<^verbatim>\<open>insert_new_feedback\<close>:
  \<^verbatim>\<open>{"id": id, "user_id": user_id, "version": 0, **form_data.model_dump(),
  "created_at": int(time.time()), "updated_at": int(time.time())}\<close>.
  The clock is read twice.\<close>

definition new_feedback_kwargs :: "env \<Rightarrow> string \<Rightarrow> FeedbackForm \<Rightarrow> dict" where
  "new_feedback_kwargs e user_id form =
     [(''id'', JStr (uuid4 e)), (''user_id'', JStr user_id), (''version'', JInt 0)]
     @ FeedbackForm_dump form
     @ [(''created_at'', JInt (time_time e 0)), (''updated_at'', JInt (time_time e 1))]"

text \<open>Lines 114--117: \<^verbatim>\<open>db.add(result)\<close>, \<^verbatim>\<open>db.commit()\<close>, \<^verbatim>\<open>db.refresh(result)\<close>.
  The row is in the table once the commit has gone through; a commit raises when the
  session call fails or when the primary key is already taken. A session closed without a
  commit leaves the table as it was.\<close>

definition persist :: "env \<Rightarrow> table \<Rightarrow> FeedbackModel \<Rightarrow> (error + FeedbackModel) \<times> table" where
  "persist e tbl feedback =
     (if db_raises e Add then (Inl DBError, tbl)
      else if db_raises e Commit \<or> fb_id feedback \<in> set (map fb_id tbl)
        then (Inl DBError, tbl)
      else if db_raises e Refresh then (Inl DBError, tbl @ [feedback])
      else (Inr feedback, tbl @ [feedback]))"

text \<open>The condition of lines 123--130. When it holds, the chat snapshot and the message
  identifier are handed on; a \<^verbatim>\<open>RatingData\<close> or \<^verbatim>\<open>SnapshotData\<close> object is always true,
  an empty dict is false.\<close>

definition memory_inputs :: "FeedbackForm \<Rightarrow> (dict \<times> json) option" where
  "memory_inputs form =
     (case form_data form of
        None \<Rightarrow> None
      | Some d \<Rightarrow>
         (if rating d \<noteq> Some (RInt 1) then None
          else (case form_snapshot form of
                  None \<Rightarrow> None
                | Some s \<Rightarrow>
                   (case chat s of
                      None \<Rightarrow> None
                    | Some c \<Rightarrow>
                       (if c = [] then None
                        else (case form_meta form of
                                None \<Rightarrow> None
                              | Some m \<Rightarrow>
                                 (if m = [] then None
                                  else (case map_of m ''message_id'' of
                                          None \<Rightarrow> None
                                        | Some v \<Rightarrow>
                                           (if py_truthy v then Some (c, v)
                                            else None)))))))))"

text \<open>Lines 131--155 up to the call of the sink: the arguments of \<^verbatim>\<open>add_text\<close>, no call
  (\<open>None\<close>) when the rated message or its parent is not in the snapshot, or the exception
  raised on the way.\<close>

definition conversation_excerpt ::
  "(json \<Rightarrow> string) \<Rightarrow> string \<Rightarrow> dict \<Rightarrow> json \<Rightarrow> error + sink_call option" where
  "conversation_excerpt repr user_id c message_id =
     and_then (py_getitem (JObj c) (JStr ''history'')) (\<lambda>chat_history.
     and_then (py_getitem chat_history (JStr ''messages'')) (\<lambda>messages.
     and_then (py_contains message_id messages) (\<lambda>found.
     if \<not> found then Inr None else
     and_then (py_getitem messages message_id) (\<lambda>response_message.
     and_then (py_get response_message ''parentId'') (\<lambda>user_message_id.
     if \<not> py_truthy user_message_id then Inr None else
     and_then (py_contains user_message_id messages) (\<lambda>found_parent.
     if \<not> found_parent then Inr None else
     and_then (py_getitem messages user_message_id) (\<lambda>user_message.
     and_then (py_getitem user_message (JStr ''content'')) (\<lambda>user_content.
     and_then (py_getitem response_message (JStr ''content'')) (\<lambda>response_content.
       Inr (Some
         \<lparr>text_arg = ''User: '' @ py_format repr user_content @ [CHR 0x0A]
                      @ ''Assistant: '' @ py_format repr response_content,
          collection_name = ''conversation_memory_'' @ user_id,
          metadata = [(''source'', JStr ''feedback''), (''message_id'', message_id)]\<rparr>
       ))))))))))"

text \<open>Lines 123--155 as a whole: the outcome (an exception or normal completion) and the
  calls of \<^verbatim>\<open>add_text\<close> that were made.\<close>

definition add_to_memory :: "env \<Rightarrow> string \<Rightarrow> FeedbackForm \<Rightarrow> (error + unit) \<times> sink_call list" where
  "add_to_memory e user_id form =
     (case memory_inputs form of
        None \<Rightarrow> (Inr (), [])
      | Some (c, message_id) \<Rightarrow>
         (case conversation_excerpt (py_repr e) user_id c message_id of
            Inl err \<Rightarrow> (Inl err, [])
          | Inr None \<Rightarrow> (Inr (), [])
          | Inr (Some call) \<Rightarrow>
             (if pipeline_raises e then (Inl SinkError, [])
              else if add_text_raises e call then (Inl SinkError, [call])
              else (Inr (), [call]))))"

text \<open>\<^verbatim>\<open>FeedbackTable.insert_new_feedback\<close>. The model object is built before the
  \<^verbatim>\<open>try\<close>, so a validation error leaves the method as an exception (\<open>Inl\<close>); everything
  raised inside the \<^verbatim>\<open>try\<close> is caught and turned into \<^verbatim>\<open>None\<close>. The result comes with
  the table afterwards and the sink calls made.\<close>

definition insert_new_feedback ::
  "env \<Rightarrow> table \<Rightarrow> string \<Rightarrow> FeedbackForm
     \<Rightarrow> (error + FeedbackModel option) \<times> table \<times> sink_call list" where
  "insert_new_feedback e tbl user_id form =
     (case FeedbackModel_init (lax_int e) (new_feedback_kwargs e user_id form) of
        Inl err \<Rightarrow> (Inl err, tbl, [])
      | Inr feedback \<Rightarrow>
         (case persist e tbl feedback of
            (Inl err, tbl') \<Rightarrow> (Inr None, tbl', [])
          | (Inr feedback_model, tbl') \<Rightarrow>
             (case add_to_memory e user_id form of
                (Inl err, calls) \<Rightarrow> (Inr None, tbl', calls)
              | (Inr done, calls) \<Rightarrow> (Inr (Some feedback_model), tbl', calls))))"


section \<open>Reading, updating and deleting\<close>

text \<open>\<^verbatim>\<open>get_feedback_by_id\<close> and \<^verbatim>\<open>get_feedback_by_id_and_user_id\<close>:
  \<^verbatim>\<open>filter_by(...).first()\<close>, with every exception turned into \<^verbatim>\<open>None\<close>.\<close>

definition get_feedback_by_id :: "env \<Rightarrow> table \<Rightarrow> string \<Rightarrow> FeedbackModel option" where
  "get_feedback_by_id e tbl fid =
     (if db_raises e Query then None else find (\<lambda>r. fb_id r = fid) tbl)"

definition get_feedback_by_id_and_user_id ::
  "env \<Rightarrow> table \<Rightarrow> string \<Rightarrow> string \<Rightarrow> FeedbackModel option" where
  "get_feedback_by_id_and_user_id e tbl fid user_id =
     (if db_raises e Query then None
      else find (\<lambda>r. fb_id r = fid \<and> fb_user_id r = user_id) tbl)"

text \<open>The assignments of lines 222--229 (the same at 242--249): a field is replaced when
  the form's value is true in a condition.\<close>

definition update_fields :: "int \<Rightarrow> FeedbackForm \<Rightarrow> FeedbackModel \<Rightarrow> FeedbackModel" where
  "update_fields now form feedback =
     feedback
       \<lparr>fb_data := (case form_data form of
                     Some d \<Rightarrow> Some (RatingData_dump d)
                   | None \<Rightarrow> fb_data feedback),
        fb_meta := (case form_meta form of
                     Some m \<Rightarrow> (if m \<noteq> [] then Some m else fb_meta feedback)
                   | None \<Rightarrow> fb_meta feedback),
        fb_snapshot := (case form_snapshot form of
                         Some s \<Rightarrow> Some (SnapshotData_dump s)
                       | None \<Rightarrow> fb_snapshot feedback),
        fb_updated_at := now\<rparr>"

text \<open>The row is written back by its primary key.\<close>

definition write_row :: "FeedbackModel \<Rightarrow> table \<Rightarrow> table" where
  "write_row feedback tbl = map (\<lambda>r. if fb_id r = fb_id feedback then feedback else r) tbl"

text \<open>\<^verbatim>\<open>update_feedback_by_id\<close> and \<^verbatim>\<open>update_feedback_by_id_and_user_id\<close>. Neither has a
  \<^verbatim>\<open>try\<close>: an exception of the session leaves the method.\<close>

definition update_feedback_by_id ::
  "env \<Rightarrow> table \<Rightarrow> string \<Rightarrow> FeedbackForm \<Rightarrow> (error + FeedbackModel option) \<times> table" where
  "update_feedback_by_id e tbl fid form =
     (if db_raises e Query then (Inl DBError, tbl)
      else case find (\<lambda>r. fb_id r = fid) tbl of
             None \<Rightarrow> (Inr None, tbl)
           | Some feedback \<Rightarrow>
              (let feedback' = update_fields (time_time e 0) form feedback
               in if db_raises e Commit then (Inl DBError, tbl)
                  else (Inr (Some feedback'), write_row feedback' tbl)))"

definition update_feedback_by_id_and_user_id ::
  "env \<Rightarrow> table \<Rightarrow> string \<Rightarrow> string \<Rightarrow> FeedbackForm
     \<Rightarrow> (error + FeedbackModel option) \<times> table" where
  "update_feedback_by_id_and_user_id e tbl fid user_id form =
     (if db_raises e Query then (Inl DBError, tbl)
      else case find (\<lambda>r. fb_id r = fid \<and> fb_user_id r = user_id) tbl of
             None \<Rightarrow> (Inr None, tbl)
           | Some feedback \<Rightarrow>
              (let feedback' = update_fields (time_time e 0) form feedback
               in if db_raises e Commit then (Inl DBError, tbl)
                  else (Inr (Some feedback'), write_row feedback' tbl)))"

text \<open>The four delete methods. Rows are deleted by primary key.\<close>

definition delete_rows :: "env \<Rightarrow> table \<Rightarrow> FeedbackModel list \<Rightarrow> (error + bool) \<times> table" where
  "delete_rows e tbl feedbacks =
     (if feedbacks = [] then (Inr False, tbl)
      else if db_raises e Delete \<or> db_raises e Commit then (Inl DBError, tbl)
      else (Inr True, filter (\<lambda>r. fb_id r \<notin> set (map fb_id feedbacks)) tbl))"

definition delete_feedback_by_id :: "env \<Rightarrow> table \<Rightarrow> string \<Rightarrow> (error + bool) \<times> table" where
  "delete_feedback_by_id e tbl fid =
     (if db_raises e Query then (Inl DBError, tbl)
      else case find (\<lambda>r. fb_id r = fid) tbl of
             None \<Rightarrow> (Inr False, tbl)
           | Some feedback \<Rightarrow> delete_rows e tbl [feedback])"

definition delete_feedback_by_id_and_user_id ::
  "env \<Rightarrow> table \<Rightarrow> string \<Rightarrow> string \<Rightarrow> (error + bool) \<times> table" where
  "delete_feedback_by_id_and_user_id e tbl fid user_id =
     (if db_raises e Query then (Inl DBError, tbl)
      else case find (\<lambda>r. fb_id r = fid \<and> fb_user_id r = user_id) tbl of
             None \<Rightarrow> (Inr False, tbl)
           | Some feedback \<Rightarrow> delete_rows e tbl [feedback])"

definition delete_feedbacks_by_user_id :: "env \<Rightarrow> table \<Rightarrow> string \<Rightarrow> (error + bool) \<times> table" where
  "delete_feedbacks_by_user_id e tbl user_id =
     (if db_raises e Query then (Inl DBError, tbl)
      else delete_rows e tbl (filter (\<lambda>r. fb_user_id r = user_id) tbl))"

definition delete_all_feedbacks :: "env \<Rightarrow> table \<Rightarrow> (error + bool) \<times> table" where
  "delete_all_feedbacks e tbl =
     (if db_raises e Query then (Inl DBError, tbl) else delete_rows e tbl tbl)"


section \<open>The tables the store can be in\<close>

text \<open>Starting from the empty table, every method that writes is a step.\<close>

inductive reachable :: "table \<Rightarrow> bool" where
  reach_empty: "reachable []"
| reach_insert:
    "reachable tbl \<Longrightarrow> reachable (fst (snd (insert_new_feedback e tbl user_id form)))"
| reach_update:
    "reachable tbl \<Longrightarrow> reachable (snd (update_feedback_by_id e tbl fid form))"
| reach_update_user:
    "reachable tbl \<Longrightarrow>
     reachable (snd (update_feedback_by_id_and_user_id e tbl fid user_id form))"
| reach_delete:
    "reachable tbl \<Longrightarrow> reachable (snd (delete_feedback_by_id e tbl fid))"
| reach_delete_user:
    "reachable tbl \<Longrightarrow> reachable (snd (delete_feedback_by_id_and_user_id e tbl fid user_id))"
| reach_delete_by_user:
    "reachable tbl \<Longrightarrow> reachable (snd (delete_feedbacks_by_user_id e tbl user_id))"
| reach_delete_all:
    "reachable tbl \<Longrightarrow> reachable (snd (delete_all_feedbacks e tbl))"


section \<open>Concrete inputs\<close>

text \<open>An environment in which nothing raises and the clock stands at 100.\<close>

definition env_ok :: env where
  "env_ok =
     \<lparr>uuid4 = ''id-1'', time_time = (\<lambda>n. 100), db_raises = (\<lambda>op. False),
      pipeline_raises = False, add_text_raises = (\<lambda>call. False),
      lax_int = (\<lambda>v. None), py_repr = (\<lambda>v. ''?'')\<rparr>"

text \<open>The positive rating of the scenario: message \<^verbatim>\<open>msg2\<close> answers \<^verbatim>\<open>msg1\<close>.\<close>

definition scenario_chat :: dict where
  "scenario_chat =
     [(''history'', JObj [(''messages'', JObj
        [(''msg1'', JObj [(''content'', JStr ''hi''), (''parentId'', JNull)]),
         (''msg2'', JObj [(''content'', JStr ''hello back''),
                          (''parentId'', JStr ''msg1'')])])])]"

definition scenario_form :: FeedbackForm where
  "scenario_form =
     \<lparr>form_type = ''rating'',
      form_data = Some \<lparr>rating = Some (RInt 1), model_id = Some ''m1'',
                        sibling_model_ids = None, reason = None, comment = None,
                        data_extra = []\<rparr>,
      form_meta = Some [(''message_id'', JStr ''msg2'')],
      form_snapshot = Some \<lparr>chat = Some scenario_chat, snapshot_extra = []\<rparr>,
      form_extra = []\<rparr>"

text \<open>The record that \<open>env_ok\<close> creates from it for user \<^verbatim>\<open>u1\<close>, with the two clock
  readings as parameters.\<close>

definition scenario_feedback :: "int \<Rightarrow> int \<Rightarrow> FeedbackModel" where
  "scenario_feedback t0 t1 =
     \<lparr>fb_id = ''id-1'', fb_user_id = ''u1'', fb_version = 0, fb_type = ''rating'',
      fb_data = Some [(''rating'', JInt 1), (''model_id'', JStr ''m1''),
                      (''sibling_model_ids'', JNull), (''reason'', JNull),
                      (''comment'', JNull)],
      fb_meta = Some [(''message_id'', JStr ''msg2'')],
      fb_snapshot = Some [(''chat'', JObj scenario_chat)],
      fb_created_at = t0, fb_updated_at = t1\<rparr>"

text \<open>Forms for an update: one that carries only a non-empty \<^verbatim>\<open>meta\<close>, one whose
  \<^verbatim>\<open>meta\<close> is the empty dict.\<close>

definition meta_only_form :: FeedbackForm where
  "meta_only_form =
     \<lparr>form_type = ''comment'', form_data = None,
      form_meta = Some [(''tags'', JArr [JStr ''good''])],
      form_snapshot = None, form_extra = []\<rparr>"

definition empty_meta_form :: FeedbackForm where
  "empty_meta_form =
     \<lparr>form_type = ''comment'', form_data = None, form_meta = Some [],
      form_snapshot = None, form_extra = []\<rparr>"


text \<open>The call of the sink that the scenario leads to, for a given user.\<close>

definition scenario_call :: "string \<Rightarrow> sink_call" where
  "scenario_call user_id =
     \<lparr>text_arg = ''User: hi'' @ [CHR 0x0A] @ ''Assistant: hello back'',
      collection_name = ''conversation_memory_'' @ user_id,
      metadata = [(''source'', JStr ''feedback''), (''message_id'', JStr ''msg2'')]\<rparr>"

text \<open>Environments in which one thing goes differently: \<^verbatim>\<open>add_text\<close> raises;
  \<^verbatim>\<open>db.refresh\<close> raises; the second clock reading falls into the next second.\<close>

definition env_sink_fails :: env where
  "env_sink_fails = env_ok\<lparr>add_text_raises := (\<lambda>call. True)\<rparr>"

definition env_refresh_fails :: env where
  "env_refresh_fails = env_ok\<lparr>db_raises := (\<lambda>op. op = Refresh)\<rparr>"

definition env_tick :: env where
  "env_tick = env_ok\<lparr>time_time := (\<lambda>n. if n = 0 then 100 else 101)\<rparr>"

text \<open>The scenario with a \<^verbatim>\<open>meta\<close> that has no \<^verbatim>\<open>message_id\<close>, and a form with an extra
  field named \<^verbatim>\<open>version\<close>, as \<^verbatim>\<open>FeedbackForm(type="rating", version=5)\<close> builds it.\<close>

definition no_message_id_form :: FeedbackForm where
  "no_message_id_form = scenario_form\<lparr>form_meta := Some [(''chat_id'', JStr ''c1'')]\<rparr>"

definition version_form :: FeedbackForm where
  "version_form =
     \<lparr>form_type = ''rating'', form_data = None, form_meta = None, form_snapshot = None,
      form_extra = [(''version'', JInt 5)]\<rparr>"


section \<open>Auxiliary facts\<close>

lemma and_then_Inr_iff: "and_then m f = Inr y \<longleftrightarrow> (\<exists>x. m = Inr x \<and> f x = Inr y)"
  by (cases m) auto

lemma find_holds: "find P xs = Some x \<Longrightarrow> P x"
  by (induction xs) (auto split: if_splits)

lemma find_by_key:
  "distinct (map f xs) \<Longrightarrow> x \<in> set xs \<Longrightarrow> find (\<lambda>r. f r = f x) xs = Some x"
  by (induction xs) (auto simp: image_iff)

lemma same_key_same_row:
  "distinct (map f xs) \<Longrightarrow> x \<in> set xs \<Longrightarrow> y \<in> set xs \<Longrightarrow> f y = f x \<Longrightarrow> y = x"
  by (meson distinct_map inj_onD)

subsection \<open>Updates\<close>

lemma update_fields_frame:
  "fb_id (update_fields now form fb) = fb_id fb"
  "fb_user_id (update_fields now form fb) = fb_user_id fb"
  "fb_version (update_fields now form fb) = fb_version fb"
  "fb_type (update_fields now form fb) = fb_type fb"
  "fb_created_at (update_fields now form fb) = fb_created_at fb"
  "fb_updated_at (update_fields now form fb) = now"
  by (simp_all add: update_fields_def)

lemma update_fields_empty_meta:
  "form_meta form = Some [] \<Longrightarrow>
   update_fields now form fb = update_fields now (form\<lparr>form_meta := None\<rparr>) fb"
  by (simp add: update_fields_def)

lemma update_fields_type:
  "update_fields now (form\<lparr>form_type := t\<rparr>) fb = update_fields now form fb"
  by (simp add: update_fields_def)

lemma write_row_ids: "map fb_id (write_row new tbl) = map fb_id tbl"
  by (induction tbl) (auto simp: write_row_def)

lemma find_write_row:
  "find (\<lambda>r. fb_id r = fid) tbl = Some old \<Longrightarrow> fb_id new = fid \<Longrightarrow>
   find (\<lambda>r. fb_id r = fid) (write_row new tbl) = Some new"
  by (induction tbl) (auto simp: write_row_def split: if_splits)

lemma find_write_row_user:
  "find (\<lambda>r. fb_id r = fid \<and> fb_user_id r = uid) tbl = Some old \<Longrightarrow>
   fb_id new = fid \<Longrightarrow> fb_user_id new = uid \<Longrightarrow>
   find (\<lambda>r. fb_id r = fid \<and> fb_user_id r = uid) (write_row new tbl) = Some new"
  by (induction tbl) (auto simp: write_row_def split: if_splits)

text \<open>After an update of an existing record, the table holds under the same key either
  the record as it was (the session raised) or the record with the form applied.\<close>

lemma stored_after_update:
  assumes "find (\<lambda>r. fb_id r = fid) tbl = Some fb"
  shows "find (\<lambda>r. fb_id r = fid) (snd (update_feedback_by_id e tbl fid form)) = Some fb
       \<or> find (\<lambda>r. fb_id r = fid) (snd (update_feedback_by_id e tbl fid form))
           = Some (update_fields (time_time e 0) form fb)"
  using assms find_holds[OF assms]
  by (auto simp: update_feedback_by_id_def Let_def find_write_row update_fields_frame)

lemma stored_after_update_user:
  assumes "find (\<lambda>r. fb_id r = fid \<and> fb_user_id r = uid) tbl = Some fb"
  shows "find (\<lambda>r. fb_id r = fid \<and> fb_user_id r = uid)
           (snd (update_feedback_by_id_and_user_id e tbl fid uid form)) = Some fb
       \<or> find (\<lambda>r. fb_id r = fid \<and> fb_user_id r = uid)
           (snd (update_feedback_by_id_and_user_id e tbl fid uid form))
           = Some (update_fields (time_time e 0) form fb)"
  using assms find_holds[OF assms]
  by (auto simp: update_feedback_by_id_and_user_id_def Let_def find_write_row_user
      update_fields_frame)

text \<open>What an update returns on an existing record, when it returns a record.\<close>

lemma returned_by_update:
  "find (\<lambda>r. fb_id r = fid) tbl = Some fb \<Longrightarrow>
   fst (update_feedback_by_id e tbl fid form) = Inr (Some v) \<Longrightarrow>
   v = update_fields (time_time e 0) form fb"
  by (auto simp: update_feedback_by_id_def Let_def split: if_splits)

lemma returned_by_update_user:
  "find (\<lambda>r. fb_id r = fid \<and> fb_user_id r = uid) tbl = Some fb \<Longrightarrow>
   fst (update_feedback_by_id_and_user_id e tbl fid uid form) = Inr (Some v) \<Longrightarrow>
   v = update_fields (time_time e 0) form fb"
  by (auto simp: update_feedback_by_id_and_user_id_def Let_def split: if_splits)

subsection \<open>Creation\<close>

lemma extra_fields_hides:
  "k \<in> set declared \<Longrightarrow> map_of (rev (extra_fields declared extra)) k = None"
  by (auto simp: extra_fields_def map_of_eq_None_iff)

lemma kwargs_created_at:
  "kwargs_lookup (new_feedback_kwargs e uid form) ''created_at'' = Some (JInt (time_time e 0))"
  by (simp add: kwargs_lookup_def new_feedback_kwargs_def)

lemma kwargs_updated_at:
  "kwargs_lookup (new_feedback_kwargs e uid form) ''updated_at'' = Some (JInt (time_time e 1))"
  by (simp add: kwargs_lookup_def new_feedback_kwargs_def)

lemma init_timestamps:
  assumes "FeedbackModel_init lax (new_feedback_kwargs e uid form) = Inr fb"
  shows "fb_created_at fb = time_time e 0 \<and> fb_updated_at fb = time_time e 1"
  using assms
  by (auto simp: FeedbackModel_init_def Let_def and_then_Inr_iff
      kwargs_created_at kwargs_updated_at)

lemma insert_returns_validated:
  "fst (insert_new_feedback e tbl uid form) = Inr (Some fb) \<Longrightarrow>
   FeedbackModel_init (lax_int e) (new_feedback_kwargs e uid form) = Inr fb"
  by (auto simp: insert_new_feedback_def persist_def split: sum.splits prod.splits if_splits)

lemma insert_table:
  "fst (snd (insert_new_feedback e tbl uid form)) = tbl \<or>
   (\<exists>fb. fst (snd (insert_new_feedback e tbl uid form)) = tbl @ [fb]
        \<and> fb_id fb \<notin> set (map fb_id tbl))"
  by (auto simp: insert_new_feedback_def persist_def split: sum.splits prod.splits if_splits)

subsection \<open>The primary key\<close>

lemma delete_rows_distinct:
  "distinct (map fb_id tbl) \<Longrightarrow> distinct (map fb_id (snd (delete_rows e tbl rows)))"
  by (auto simp: delete_rows_def distinct_map_filter)

text \<open>No two rows of a reachable table have the same \<^verbatim>\<open>id\<close>.\<close>

lemma reachable_distinct: "reachable tbl \<Longrightarrow> distinct (map fb_id tbl)"
proof (induction rule: reachable.induct)
  case reach_empty
  show ?case by simp
next
  case (reach_insert tbl e user_id form)
  then show ?case using insert_table[of e tbl user_id form] by auto
next
  case (reach_update tbl e fid form)
  then show ?case
    by (auto simp: update_feedback_by_id_def Let_def write_row_ids split: option.splits)
next
  case (reach_update_user tbl e fid user_id form)
  then show ?case
    by (auto simp: update_feedback_by_id_and_user_id_def Let_def write_row_ids
        split: option.splits)
next
  case (reach_delete tbl e fid)
  then show ?case
    using delete_rows_distinct by (auto simp: delete_feedback_by_id_def split: option.splits)
next
  case (reach_delete_user tbl e fid user_id)
  then show ?case
    using delete_rows_distinct
    by (auto simp: delete_feedback_by_id_and_user_id_def split: option.splits)
next
  case (reach_delete_by_user tbl e user_id)
  then show ?case
    using delete_rows_distinct by (auto simp: delete_feedbacks_by_user_id_def)
next
  case (reach_delete_all tbl e)
  then show ?case
    using delete_rows_distinct by (auto simp: delete_all_feedbacks_def)
qed


subsection \<open>The scenario, evaluated\<close>

lemma scenario_insert:
  "insert_new_feedback env_ok [] ''u1'' scenario_form
     = (Inr (Some (scenario_feedback 100 100)), [scenario_feedback 100 100],
        [\<lparr>text_arg = ''User: hi'' @ [CHR 0x0A] @ ''Assistant: hello back'',
          collection_name = ''conversation_memory_u1'',
          metadata = [(''source'', JStr ''feedback''), (''message_id'', JStr ''msg2'')]\<rparr>])"
  by (simp add: insert_new_feedback_def FeedbackModel_init_def new_feedback_kwargs_def
      kwargs_lookup_def FeedbackForm_dump_def RatingData_dump_def SnapshotData_dump_def
      extra_fields_def persist_def add_to_memory_def memory_inputs_def
      conversation_excerpt_def env_ok_def scenario_form_def scenario_chat_def
      scenario_feedback_def)

lemma reachable_scenario: "reachable [scenario_feedback 100 100]"
  using reach_insert[OF reach_empty, of env_ok "''u1''" scenario_form]
  by (simp add: scenario_insert)


section \<open>Ownership of reads\<close>

text \<open>
  Claim C7. In a table the store can reach, take any record and any user identifier other
  than the record's \<^verbatim>\<open>user_id\<close>. While the query itself does not raise,
  \<^verbatim>\<open>get_feedback_by_id_and_user_id\<close> with the record's id and that user returns
  \<^verbatim>\<open>None\<close>, and \<^verbatim>\<open>get_feedback_by_id\<close> with the same id returns the record.
\<close>

theorem scoped_read_isolates_owner:
  assumes "reachable tbl" and "feedback \<in> set tbl" and "user_id \<noteq> fb_user_id feedback"
    and "\<not> db_raises e Query"
  shows "get_feedback_by_id_and_user_id e tbl (fb_id feedback) user_id = None
       \<and> get_feedback_by_id e tbl (fb_id feedback) = Some feedback"
proof -
  have d: "distinct (map fb_id tbl)" using assms(1) by (rule reachable_distinct)
  have "find (\<lambda>r. fb_id r = fb_id feedback) tbl = Some feedback"
    using d assms(2) by (rule find_by_key)
  moreover have "find (\<lambda>r. fb_id r = fb_id feedback \<and> fb_user_id r = user_id) tbl = None"
    using same_key_same_row[OF d assms(2)] assms(3) by (auto simp: find_None_iff)
  ultimately show ?thesis
    using assms(4) by (simp add: get_feedback_by_id_def get_feedback_by_id_and_user_id_def)
qed

text \<open>Claim C7 at the record of user \<^verbatim>\<open>u1\<close>, read on behalf of \<^verbatim>\<open>u2\<close>.\<close>

theorem scoped_read_isolates_owner_witness:
  "reachable [scenario_feedback 100 100]
   \<and> scenario_feedback 100 100 \<in> set [scenario_feedback 100 100]
   \<and> ''u2'' \<noteq> fb_user_id (scenario_feedback 100 100)
   \<and> \<not> db_raises env_ok Query
   \<and> get_feedback_by_id_and_user_id env_ok [scenario_feedback 100 100] ''id-1'' ''u2'' = None
   \<and> get_feedback_by_id env_ok [scenario_feedback 100 100] ''id-1''
       = Some (scenario_feedback 100 100)"
proof -
  have q: "\<not> db_raises env_ok Query" by (simp add: env_ok_def)
  have u: "''u2'' \<noteq> fb_user_id (scenario_feedback 100 100)"
    by (simp add: scenario_feedback_def)
  have m: "scenario_feedback 100 100 \<in> set [scenario_feedback 100 100]" by simp
  have i: "fb_id (scenario_feedback 100 100) = ''id-1''" by (simp add: scenario_feedback_def)
  show ?thesis
    using scoped_read_isolates_owner[OF reachable_scenario m u q] reachable_scenario q u
    by (simp add: i)
qed


section \<open>Updates\<close>

text \<open>
  Claim C9. When the form of an update carries the empty dict as \<^verbatim>\<open>meta\<close>, both
  \<^verbatim>\<open>update_feedback_by_id\<close> and \<^verbatim>\<open>update_feedback_by_id_and_user_id\<close> behave exactly as
  they do for the same form without \<^verbatim>\<open>meta\<close>; and on an existing record the \<^verbatim>\<open>meta\<close>
  in the table afterwards, and in the record the method returns, is the one stored before.
\<close>

theorem update_empty_meta_is_absent_meta:
  assumes "form_meta form = Some []"
  shows "update_feedback_by_id e tbl fid form
           = update_feedback_by_id e tbl fid (form\<lparr>form_meta := None\<rparr>)
       \<and> update_feedback_by_id_and_user_id e tbl fid uid form
           = update_feedback_by_id_and_user_id e tbl fid uid (form\<lparr>form_meta := None\<rparr>)
       \<and> (find (\<lambda>r. fb_id r = fid) tbl = Some feedback \<longrightarrow>
            (\<exists>feedback'. find (\<lambda>r. fb_id r = fid) (snd (update_feedback_by_id e tbl fid form))
                            = Some feedback'
                        \<and> fb_meta feedback' = fb_meta feedback)
            \<and> (\<forall>v. fst (update_feedback_by_id e tbl fid form) = Inr (Some v)
                     \<longrightarrow> fb_meta v = fb_meta feedback))
       \<and> (find (\<lambda>r. fb_id r = fid \<and> fb_user_id r = uid) tbl = Some feedback \<longrightarrow>
            (\<exists>feedback'. find (\<lambda>r. fb_id r = fid \<and> fb_user_id r = uid)
                              (snd (update_feedback_by_id_and_user_id e tbl fid uid form))
                            = Some feedback'
                        \<and> fb_meta feedback' = fb_meta feedback)
            \<and> (\<forall>v. fst (update_feedback_by_id_and_user_id e tbl fid uid form) = Inr (Some v)
                     \<longrightarrow> fb_meta v = fb_meta feedback))"
proof -
  have keep: "fb_meta (update_fields now form fb) = fb_meta fb" for now fb
    using assms by (simp add: update_fields_def)
  have eq1: "update_feedback_by_id e tbl fid form
           = update_feedback_by_id e tbl fid (form\<lparr>form_meta := None\<rparr>)"
    by (simp add: update_feedback_by_id_def update_fields_empty_meta[OF assms]
        split: option.splits)
  have eq2: "update_feedback_by_id_and_user_id e tbl fid uid form
           = update_feedback_by_id_and_user_id e tbl fid uid (form\<lparr>form_meta := None\<rparr>)"
    by (simp add: update_feedback_by_id_and_user_id_def update_fields_empty_meta[OF assms]
        split: option.splits)
  have st1: "\<exists>feedback'. find (\<lambda>r. fb_id r = fid) (snd (update_feedback_by_id e tbl fid form))
                            = Some feedback' \<and> fb_meta feedback' = fb_meta feedback"
    if "find (\<lambda>r. fb_id r = fid) tbl = Some feedback"
    using stored_after_update[OF that, of e form] keep by auto
  have rt1: "fb_meta v = fb_meta feedback"
    if "find (\<lambda>r. fb_id r = fid) tbl = Some feedback"
      and "fst (update_feedback_by_id e tbl fid form) = Inr (Some v)" for v
    using returned_by_update[OF that] keep by simp
  have st2: "\<exists>feedback'. find (\<lambda>r. fb_id r = fid \<and> fb_user_id r = uid)
                              (snd (update_feedback_by_id_and_user_id e tbl fid uid form))
                            = Some feedback' \<and> fb_meta feedback' = fb_meta feedback"
    if "find (\<lambda>r. fb_id r = fid \<and> fb_user_id r = uid) tbl = Some feedback"
    using stored_after_update_user[OF that, of e form] keep by auto
  have rt2: "fb_meta v = fb_meta feedback"
    if "find (\<lambda>r. fb_id r = fid \<and> fb_user_id r = uid) tbl = Some feedback"
      and "fst (update_feedback_by_id_and_user_id e tbl fid uid form) = Inr (Some v)" for v
    using returned_by_update_user[OF that] keep by simp
  show ?thesis using eq1 eq2 st1 rt1 st2 rt2 by blast
qed

text \<open>Claim C9 at the scenario's record, updated with \<^verbatim>\<open>meta = {}\<close>: the stored
  \<^verbatim>\<open>meta\<close> still names \<^verbatim>\<open>msg2\<close>.\<close>

theorem update_empty_meta_is_absent_meta_witness:
  "form_meta empty_meta_form = Some []
   \<and> find (\<lambda>r. fb_id r = ''id-1'') [scenario_feedback 100 100]
       = Some (scenario_feedback 100 100)
   \<and> update_feedback_by_id env_ok [scenario_feedback 100 100] ''id-1'' empty_meta_form
       = update_feedback_by_id env_ok [scenario_feedback 100 100] ''id-1''
           (empty_meta_form\<lparr>form_meta := None\<rparr>)
   \<and> map fb_meta
        (snd (update_feedback_by_id env_ok [scenario_feedback 100 100] ''id-1''
                empty_meta_form))
       = [Some [(''message_id'', JStr ''msg2'')]]
   \<and> map fb_meta
        (snd (update_feedback_by_id_and_user_id env_ok [scenario_feedback 100 100]
                ''id-1'' ''u1'' empty_meta_form))
       = [Some [(''message_id'', JStr ''msg2'')]]"
proof -
  have h: "form_meta empty_meta_form = Some []" by (simp add: empty_meta_form_def)
  have "update_feedback_by_id env_ok [scenario_feedback 100 100] ''id-1'' empty_meta_form
       = update_feedback_by_id env_ok [scenario_feedback 100 100] ''id-1''
           (empty_meta_form\<lparr>form_meta := None\<rparr>)"
    using update_empty_meta_is_absent_meta[OF h] by blast
  then show ?thesis
    using h
    by (simp add: update_feedback_by_id_def update_feedback_by_id_and_user_id_def
        update_fields_def write_row_def Let_def env_ok_def scenario_feedback_def
        empty_meta_form_def)
qed


text \<open>
  Claim C10. An update of an existing record, by either method, leaves the record's
  \<^verbatim>\<open>id\<close>, \<^verbatim>\<open>user_id\<close>, \<^verbatim>\<open>type\<close> and \<^verbatim>\<open>created_at\<close> as they were, in the table and in
  the record returned; and the \<^verbatim>\<open>type\<close> of the form plays no part: changing it changes
  neither the result nor the table.
\<close>

theorem update_keeps_identity_fields:
  "(find (\<lambda>r. fb_id r = fid) tbl = Some feedback \<longrightarrow>
      (\<exists>feedback'. find (\<lambda>r. fb_id r = fid) (snd (update_feedback_by_id e tbl fid form))
                      = Some feedback'
                  \<and> fb_id feedback' = fb_id feedback
                  \<and> fb_user_id feedback' = fb_user_id feedback
                  \<and> fb_type feedback' = fb_type feedback
                  \<and> fb_created_at feedback' = fb_created_at feedback)
      \<and> (\<forall>v. fst (update_feedback_by_id e tbl fid form) = Inr (Some v) \<longrightarrow>
               fb_id v = fb_id feedback \<and> fb_user_id v = fb_user_id feedback
             \<and> fb_type v = fb_type feedback \<and> fb_created_at v = fb_created_at feedback))
   \<and> (find (\<lambda>r. fb_id r = fid \<and> fb_user_id r = uid) tbl = Some feedback \<longrightarrow>
      (\<exists>feedback'. find (\<lambda>r. fb_id r = fid \<and> fb_user_id r = uid)
                        (snd (update_feedback_by_id_and_user_id e tbl fid uid form))
                      = Some feedback'
                  \<and> fb_id feedback' = fb_id feedback
                  \<and> fb_user_id feedback' = fb_user_id feedback
                  \<and> fb_type feedback' = fb_type feedback
                  \<and> fb_created_at feedback' = fb_created_at feedback)
      \<and> (\<forall>v. fst (update_feedback_by_id_and_user_id e tbl fid uid form) = Inr (Some v) \<longrightarrow>
               fb_id v = fb_id feedback \<and> fb_user_id v = fb_user_id feedback
             \<and> fb_type v = fb_type feedback \<and> fb_created_at v = fb_created_at feedback))
   \<and> update_feedback_by_id e tbl fid (form\<lparr>form_type := t\<rparr>)
       = update_feedback_by_id e tbl fid form
   \<and> update_feedback_by_id_and_user_id e tbl fid uid (form\<lparr>form_type := t\<rparr>)
       = update_feedback_by_id_and_user_id e tbl fid uid form"
proof -
  have st1: "\<exists>feedback'. find (\<lambda>r. fb_id r = fid) (snd (update_feedback_by_id e tbl fid form))
                      = Some feedback'
                  \<and> fb_id feedback' = fb_id feedback
                  \<and> fb_user_id feedback' = fb_user_id feedback
                  \<and> fb_type feedback' = fb_type feedback
                  \<and> fb_created_at feedback' = fb_created_at feedback"
    if "find (\<lambda>r. fb_id r = fid) tbl = Some feedback"
    using stored_after_update[OF that, of e form] by (auto simp: update_fields_frame)
  have rt1: "fb_id v = fb_id feedback \<and> fb_user_id v = fb_user_id feedback
             \<and> fb_type v = fb_type feedback \<and> fb_created_at v = fb_created_at feedback"
    if "find (\<lambda>r. fb_id r = fid) tbl = Some feedback"
      and "fst (update_feedback_by_id e tbl fid form) = Inr (Some v)" for v
    using returned_by_update[OF that] by (simp add: update_fields_frame)
  have st2: "\<exists>feedback'. find (\<lambda>r. fb_id r = fid \<and> fb_user_id r = uid)
                        (snd (update_feedback_by_id_and_user_id e tbl fid uid form))
                      = Some feedback'
                  \<and> fb_id feedback' = fb_id feedback
                  \<and> fb_user_id feedback' = fb_user_id feedback
                  \<and> fb_type feedback' = fb_type feedback
                  \<and> fb_created_at feedback' = fb_created_at feedback"
    if "find (\<lambda>r. fb_id r = fid \<and> fb_user_id r = uid) tbl = Some feedback"
    using stored_after_update_user[OF that, of e form] by (auto simp: update_fields_frame)
  have rt2: "fb_id v = fb_id feedback \<and> fb_user_id v = fb_user_id feedback
             \<and> fb_type v = fb_type feedback \<and> fb_created_at v = fb_created_at feedback"
    if "find (\<lambda>r. fb_id r = fid \<and> fb_user_id r = uid) tbl = Some feedback"
      and "fst (update_feedback_by_id_and_user_id e tbl fid uid form) = Inr (Some v)" for v
    using returned_by_update_user[OF that] by (simp add: update_fields_frame)
  have ty1: "update_feedback_by_id e tbl fid (form\<lparr>form_type := t\<rparr>)
       = update_feedback_by_id e tbl fid form"
    by (simp add: update_feedback_by_id_def update_fields_type split: option.splits)
  have ty2: "update_feedback_by_id_and_user_id e tbl fid uid (form\<lparr>form_type := t\<rparr>)
       = update_feedback_by_id_and_user_id e tbl fid uid form"
    by (simp add: update_feedback_by_id_and_user_id_def update_fields_type
        split: option.splits)
  show ?thesis using st1 rt1 st2 rt2 ty1 ty2 by blast
qed

text \<open>Claim C10 at the scenario's record (type \<^verbatim>\<open>rating\<close>), updated with a form of type
  \<^verbatim>\<open>comment\<close>.\<close>

theorem update_keeps_identity_fields_witness:
  "find (\<lambda>r. fb_id r = ''id-1'') [scenario_feedback 100 100] = Some (scenario_feedback 100 100)
   \<and> update_feedback_by_id (env_ok\<lparr>time_time := (\<lambda>n. 250)\<rparr>) [scenario_feedback 100 100]
        ''id-1'' meta_only_form
       = (Inr (Some ((scenario_feedback 100 250)
                       \<lparr>fb_meta := Some [(''tags'', JArr [JStr ''good''])]\<rparr>)),
          [(scenario_feedback 100 250)\<lparr>fb_meta := Some [(''tags'', JArr [JStr ''good''])]\<rparr>])
   \<and> fb_type (scenario_feedback 100 250) = ''rating''
   \<and> form_type meta_only_form = ''comment''"
proof -
  have h: "find (\<lambda>r. fb_id r = ''id-1'') [scenario_feedback 100 100]
             = Some (scenario_feedback 100 100)"
    by (simp add: scenario_feedback_def)
  have "\<exists>feedback'. find (\<lambda>r. fb_id r = ''id-1'')
           (snd (update_feedback_by_id (env_ok\<lparr>time_time := (\<lambda>n. 250)\<rparr>)
                   [scenario_feedback 100 100] ''id-1'' meta_only_form)) = Some feedback'
         \<and> fb_type feedback' = fb_type (scenario_feedback 100 100)"
    using update_keeps_identity_fields[of "''id-1''" "[scenario_feedback 100 100]"
        "scenario_feedback 100 100" "env_ok\<lparr>time_time := (\<lambda>n. 250)\<rparr>" meta_only_form] h
    by blast
  then show ?thesis
    using h
    by (simp add: update_feedback_by_id_def update_fields_def write_row_def Let_def
        env_ok_def scenario_feedback_def meta_only_form_def)
qed

text \<open>
  Claim C5, as amended. When the form carries a non-empty \<^verbatim>\<open>meta\<close> and neither \<^verbatim>\<open>data\<close>
  nor \<^verbatim>\<open>snapshot\<close>, and the session does not raise, an update of an existing record by
  either method returns and stores the record with \<^verbatim>\<open>meta\<close> replaced by the form's and
  \<^verbatim>\<open>updated_at\<close> set to the clock reading; \<^verbatim>\<open>data\<close>, \<^verbatim>\<open>snapshot\<close> and every other field
  are as before. \<^verbatim>\<open>updated_at\<close> does not decrease unless the clock has gone back.
\<close>

theorem update_with_meta_only:
  assumes "form_data form = None" and "form_snapshot form = None"
    and "form_meta form = Some m" and "m \<noteq> []"
    and "\<not> db_raises e Query" and "\<not> db_raises e Commit"
  shows "(find (\<lambda>r. fb_id r = fid) tbl = Some feedback \<longrightarrow>
            update_feedback_by_id e tbl fid form
              = (Inr (Some (feedback\<lparr>fb_meta := Some m, fb_updated_at := time_time e 0\<rparr>)),
                 write_row (feedback\<lparr>fb_meta := Some m, fb_updated_at := time_time e 0\<rparr>) tbl)
          \<and> find (\<lambda>r. fb_id r = fid)
                (write_row (feedback\<lparr>fb_meta := Some m, fb_updated_at := time_time e 0\<rparr>) tbl)
              = Some (feedback\<lparr>fb_meta := Some m, fb_updated_at := time_time e 0\<rparr>))
       \<and> (find (\<lambda>r. fb_id r = fid \<and> fb_user_id r = uid) tbl = Some feedback \<longrightarrow>
            update_feedback_by_id_and_user_id e tbl fid uid form
              = (Inr (Some (feedback\<lparr>fb_meta := Some m, fb_updated_at := time_time e 0\<rparr>)),
                 write_row (feedback\<lparr>fb_meta := Some m, fb_updated_at := time_time e 0\<rparr>) tbl)
          \<and> find (\<lambda>r. fb_id r = fid \<and> fb_user_id r = uid)
                (write_row (feedback\<lparr>fb_meta := Some m, fb_updated_at := time_time e 0\<rparr>) tbl)
              = Some (feedback\<lparr>fb_meta := Some m, fb_updated_at := time_time e 0\<rparr>))
       \<and> (fb_updated_at feedback \<le> time_time e 0 \<longrightarrow>
            fb_updated_at feedback
              \<le> fb_updated_at (feedback\<lparr>fb_meta := Some m, fb_updated_at := time_time e 0\<rparr>))"
proof -
  have uf: "update_fields (time_time e 0) form fb
              = fb\<lparr>fb_meta := Some m, fb_updated_at := time_time e 0\<rparr>" for fb
    using assms(1-4) by (simp add: update_fields_def)
  have a: "update_feedback_by_id e tbl fid form
              = (Inr (Some (feedback\<lparr>fb_meta := Some m, fb_updated_at := time_time e 0\<rparr>)),
                 write_row (feedback\<lparr>fb_meta := Some m, fb_updated_at := time_time e 0\<rparr>) tbl)
          \<and> find (\<lambda>r. fb_id r = fid)
                (write_row (feedback\<lparr>fb_meta := Some m, fb_updated_at := time_time e 0\<rparr>) tbl)
              = Some (feedback\<lparr>fb_meta := Some m, fb_updated_at := time_time e 0\<rparr>)"
    if f: "find (\<lambda>r. fb_id r = fid) tbl = Some feedback"
    using f find_holds[OF f] assms(5,6)
    by (simp add: update_feedback_by_id_def Let_def uf find_write_row)
  have b: "update_feedback_by_id_and_user_id e tbl fid uid form
              = (Inr (Some (feedback\<lparr>fb_meta := Some m, fb_updated_at := time_time e 0\<rparr>)),
                 write_row (feedback\<lparr>fb_meta := Some m, fb_updated_at := time_time e 0\<rparr>) tbl)
          \<and> find (\<lambda>r. fb_id r = fid \<and> fb_user_id r = uid)
                (write_row (feedback\<lparr>fb_meta := Some m, fb_updated_at := time_time e 0\<rparr>) tbl)
              = Some (feedback\<lparr>fb_meta := Some m, fb_updated_at := time_time e 0\<rparr>)"
    if f: "find (\<lambda>r. fb_id r = fid \<and> fb_user_id r = uid) tbl = Some feedback"
    using f find_holds[OF f] assms(5,6)
    by (simp add: update_feedback_by_id_and_user_id_def Let_def uf find_write_row_user)
  show ?thesis using a b by simp
qed

text \<open>Claim C5 as amended, at the scenario's record and a form that carries only tags.\<close>

theorem update_with_meta_only_witness:
  "form_data meta_only_form = None \<and> form_snapshot meta_only_form = None
   \<and> form_meta meta_only_form = Some [(''tags'', JArr [JStr ''good''])]
   \<and> [(''tags'', JArr [JStr ''good''])] \<noteq> []
   \<and> \<not> db_raises (env_ok\<lparr>time_time := (\<lambda>n. 250)\<rparr>) Query
   \<and> \<not> db_raises (env_ok\<lparr>time_time := (\<lambda>n. 250)\<rparr>) Commit
   \<and> find (\<lambda>r. fb_id r = ''id-1'') [scenario_feedback 100 100]
       = Some (scenario_feedback 100 100)
   \<and> update_feedback_by_id (env_ok\<lparr>time_time := (\<lambda>n. 250)\<rparr>) [scenario_feedback 100 100]
        ''id-1'' meta_only_form
       = (Inr (Some ((scenario_feedback 100 250)
                       \<lparr>fb_meta := Some [(''tags'', JArr [JStr ''good''])]\<rparr>)),
          [(scenario_feedback 100 250)\<lparr>fb_meta := Some [(''tags'', JArr [JStr ''good''])]\<rparr>])"
proof -
  have h1: "form_data meta_only_form = None" by (simp add: meta_only_form_def)
  have h2: "form_snapshot meta_only_form = None" by (simp add: meta_only_form_def)
  have h3: "form_meta meta_only_form = Some [(''tags'', JArr [JStr ''good''])]"
    by (simp add: meta_only_form_def)
  have h4: "[(''tags'', JArr [JStr ''good''])] \<noteq> []" by simp
  have h5: "\<not> db_raises (env_ok\<lparr>time_time := (\<lambda>n. 250)\<rparr>) Query" by (simp add: env_ok_def)
  have h6: "\<not> db_raises (env_ok\<lparr>time_time := (\<lambda>n. 250)\<rparr>) Commit" by (simp add: env_ok_def)
  have f: "find (\<lambda>r. fb_id r = ''id-1'') [scenario_feedback 100 100]
             = Some (scenario_feedback 100 100)"
    by (simp add: scenario_feedback_def)
  have "update_feedback_by_id (env_ok\<lparr>time_time := (\<lambda>n. 250)\<rparr>) [scenario_feedback 100 100]
        ''id-1'' meta_only_form
       = (Inr (Some ((scenario_feedback 100 100)\<lparr>fb_meta := Some [(''tags'', JArr [JStr ''good''])],
                 fb_updated_at := time_time (env_ok\<lparr>time_time := (\<lambda>n. 250)\<rparr>) 0\<rparr>)),
          write_row ((scenario_feedback 100 100)\<lparr>fb_meta := Some [(''tags'', JArr [JStr ''good''])],
                 fb_updated_at := time_time (env_ok\<lparr>time_time := (\<lambda>n. 250)\<rparr>) 0\<rparr>)
            [scenario_feedback 100 100])"
    using update_with_meta_only[OF h1 h2 h3 h4 h5 h6, of "''id-1''" "[scenario_feedback 100 100]"
        "scenario_feedback 100 100"] f
    by blast
  then show ?thesis
    using h1 h2 h3 h5 h6 f
    by (simp add: write_row_def scenario_feedback_def)
qed

text \<open>Claim C5 as stated fails for a form whose only field is \<^verbatim>\<open>meta = {}\<close>: the stored
  \<^verbatim>\<open>meta\<close> is not replaced by the empty dict.\<close>

theorem empty_meta_not_replaced:
  "form_data empty_meta_form = None \<and> form_snapshot empty_meta_form = None
   \<and> form_meta empty_meta_form = Some []
   \<and> get_feedback_by_id env_ok [scenario_feedback 100 100] ''id-1''
       = Some (scenario_feedback 100 100)
   \<and> update_feedback_by_id env_ok [scenario_feedback 100 100] ''id-1'' empty_meta_form
       = (Inr (Some (scenario_feedback 100 100)), [scenario_feedback 100 100])
   \<and> fb_meta (scenario_feedback 100 100) = Some [(''message_id'', JStr ''msg2'')]
   \<and> fb_meta (scenario_feedback 100 100) \<noteq> form_meta empty_meta_form"
  by (simp add: get_feedback_by_id_def update_feedback_by_id_def update_fields_def
      write_row_def Let_def env_ok_def scenario_feedback_def empty_meta_form_def)


section \<open>Creation\<close>

subsection \<open>Auxiliary facts on creation\<close>

lemma insert_after_persist:
  assumes "FeedbackModel_init (lax_int e) (new_feedback_kwargs e uid form) = Inr fb"
    and "\<not> db_raises e Add" and "\<not> db_raises e Commit" and "\<not> db_raises e Refresh"
    and "fb_id fb \<notin> set (map fb_id tbl)"
  shows "insert_new_feedback e tbl uid form =
           (case add_to_memory e uid form of
              (Inl err, calls) \<Rightarrow> (Inr None, tbl @ [fb], calls)
            | (Inr done, calls) \<Rightarrow> (Inr (Some fb), tbl @ [fb], calls))"
  using assms by (simp add: insert_new_feedback_def persist_def)

lemma find_appended:
  "fb_id fb \<notin> set (map fb_id tbl) \<Longrightarrow> find (\<lambda>r. fb_id r = fb_id fb) (tbl @ [fb]) = Some fb"
  by (induction tbl) auto

lemma memory_inputs_None:
  assumes "(\<forall>d. form_data form = Some d \<longrightarrow> rating d \<noteq> Some (RInt 1))
         \<or> (\<forall>s c. form_snapshot form = Some s \<longrightarrow> chat s = Some c \<longrightarrow> c = [])
         \<or> form_meta form = None
         \<or> (\<exists>m. form_meta form = Some m
                \<and> (\<forall>v. map_of m ''message_id'' = Some v \<longrightarrow> \<not> py_truthy v))"
  shows "memory_inputs form = None"
  using assms by (auto simp: memory_inputs_def split: option.splits)

lemma no_inputs_no_calls:
  "memory_inputs form = None \<Longrightarrow> add_to_memory e uid form = (Inr (), [])"
  by (simp add: add_to_memory_def)

lemma insert_calls_from_memory:
  "snd (snd (insert_new_feedback e tbl uid form)) = []
   \<or> snd (snd (insert_new_feedback e tbl uid form)) = snd (add_to_memory e uid form)"
  by (auto simp: insert_new_feedback_def split: sum.splits prod.splits)

lemma scenario_validates:
  "FeedbackModel_init lax (new_feedback_kwargs e user_id scenario_form)
     = Inr ((scenario_feedback (time_time e 0) (time_time e 1))
              \<lparr>fb_id := uuid4 e, fb_user_id := user_id\<rparr>)"
  by (simp add: FeedbackModel_init_def new_feedback_kwargs_def kwargs_lookup_def
      FeedbackForm_dump_def RatingData_dump_def SnapshotData_dump_def extra_fields_def
      scenario_form_def scenario_feedback_def)

lemma scenario_excerpt:
  "conversation_excerpt repr user_id scenario_chat (JStr ''msg2'')
     = Inr (Some (scenario_call user_id))"
  by (simp add: conversation_excerpt_def scenario_chat_def scenario_call_def)

lemma scenario_memory_inputs:
  "memory_inputs scenario_form = Some (scenario_chat, JStr ''msg2'')"
  by (simp add: memory_inputs_def scenario_form_def scenario_chat_def)

text \<open>Without an extra field named \<^verbatim>\<open>version\<close>, a new record has version 0.\<close>

lemma created_version_default:
  assumes "map_of (form_extra form) ''version'' = None"
    and "FeedbackModel_init lax (new_feedback_kwargs e uid form) = Inr fb"
  shows "fb_version fb = 0"
proof -
  have "map_of (rev (extra_fields [''type'', ''data'', ''meta'', ''snapshot''] (form_extra form)))
          ''version'' = None"
    using assms(1) by (auto simp: extra_fields_def map_of_eq_None_iff)
  then have "kwargs_lookup (new_feedback_kwargs e uid form) ''version'' = Some (JInt 0)"
    by (simp add: kwargs_lookup_def new_feedback_kwargs_def FeedbackForm_dump_def
        map_add_def)
  then show ?thesis
    using assms(2) by (auto simp: FeedbackModel_init_def Let_def and_then_Inr_iff)
qed

subsection \<open>Failures of the memory side effect\<close>

text \<open>
  Claim C1, as amended. When the record has been committed and the conversation-memory
  side effect then raises, \<^verbatim>\<open>insert_new_feedback\<close> lets no exception out and returns
  \<^verbatim>\<open>None\<close>, not the record; the committed record is in the table and
  \<^verbatim>\<open>get_feedback_by_id\<close> returns it.
\<close>

theorem create_absent_when_memory_fails:
  assumes "FeedbackModel_init (lax_int e) (new_feedback_kwargs e user_id form) = Inr feedback"
    and "\<not> db_raises e Add" and "\<not> db_raises e Commit" and "\<not> db_raises e Refresh"
    and "fb_id feedback \<notin> set (map fb_id tbl)"
    and "add_to_memory e user_id form = (Inl err, calls)"
    and "\<not> db_raises e' Query"
  shows "insert_new_feedback e tbl user_id form = (Inr None, tbl @ [feedback], calls)
       \<and> get_feedback_by_id e' (tbl @ [feedback]) (fb_id feedback) = Some feedback"
  using insert_after_persist[OF assms(1-5)] assms(6,7) find_appended[OF assms(5)]
  by (simp add: get_feedback_by_id_def)

text \<open>Claim C1 as amended, at the scenario with a sink that raises.\<close>

theorem create_absent_when_memory_fails_witness:
  "FeedbackModel_init (lax_int env_sink_fails)
       (new_feedback_kwargs env_sink_fails ''u1'' scenario_form)
     = Inr (scenario_feedback 100 100)
   \<and> \<not> db_raises env_sink_fails Add \<and> \<not> db_raises env_sink_fails Commit
   \<and> \<not> db_raises env_sink_fails Refresh
   \<and> fb_id (scenario_feedback 100 100) \<notin> set (map fb_id [])
   \<and> add_to_memory env_sink_fails ''u1'' scenario_form
       = (Inl SinkError, [scenario_call ''u1''])
   \<and> \<not> db_raises env_ok Query
   \<and> insert_new_feedback env_sink_fails [] ''u1'' scenario_form
       = (Inr None, [] @ [scenario_feedback 100 100], [scenario_call ''u1''])
   \<and> get_feedback_by_id env_ok ([] @ [scenario_feedback 100 100])
        (fb_id (scenario_feedback 100 100))
       = Some (scenario_feedback 100 100)"
proof -
  have h1: "FeedbackModel_init (lax_int env_sink_fails)
       (new_feedback_kwargs env_sink_fails ''u1'' scenario_form)
     = Inr (scenario_feedback 100 100)"
    by (simp add: scenario_validates env_sink_fails_def env_ok_def scenario_feedback_def)
  have h2: "\<not> db_raises env_sink_fails Add" by (simp add: env_sink_fails_def env_ok_def)
  have h3: "\<not> db_raises env_sink_fails Commit" by (simp add: env_sink_fails_def env_ok_def)
  have h4: "\<not> db_raises env_sink_fails Refresh" by (simp add: env_sink_fails_def env_ok_def)
  have h5: "fb_id (scenario_feedback 100 100) \<notin> set (map fb_id [])" by simp
  have h6: "add_to_memory env_sink_fails ''u1'' scenario_form
       = (Inl SinkError, [scenario_call ''u1''])"
    by (simp add: add_to_memory_def scenario_memory_inputs scenario_excerpt
        env_sink_fails_def env_ok_def)
  have h7: "\<not> db_raises env_ok Query" by (simp add: env_ok_def)
  show ?thesis
    using create_absent_when_memory_fails[OF h1 h2 h3 h4 h5 h6 h7] h1 h2 h3 h4 h5 h6 h7
    by simp
qed

text \<open>Claim C1 as stated fails: in the scenario, with \<^verbatim>\<open>add_text\<close> raising, the record
  is committed and readable, and the create returns \<^verbatim>\<open>None\<close> instead of the record.\<close>

theorem memory_failure_fails_create:
  "add_to_memory env_sink_fails ''u1'' scenario_form
     = (Inl SinkError, [scenario_call ''u1''])
   \<and> insert_new_feedback env_sink_fails [] ''u1'' scenario_form
       = (Inr None, [scenario_feedback 100 100], [scenario_call ''u1''])
   \<and> get_feedback_by_id env_ok [scenario_feedback 100 100] ''id-1''
       = Some (scenario_feedback 100 100)
   \<and> fst (insert_new_feedback env_sink_fails [] ''u1'' scenario_form)
       \<noteq> Inr (Some (scenario_feedback 100 100))"
  by (simp add: insert_new_feedback_def scenario_validates persist_def add_to_memory_def
      scenario_memory_inputs scenario_excerpt env_sink_fails_def env_ok_def
      get_feedback_by_id_def scenario_feedback_def)

subsection \<open>Failures of the persistence calls\<close>

text \<open>
  Claim C2, as amended. Take a create whose record passes validation. If
  \<^verbatim>\<open>db.add\<close> or \<^verbatim>\<open>db.commit\<close> raises (a taken primary key included), the method lets no
  exception out, returns \<^verbatim>\<open>None\<close>, calls no sink and leaves the table exactly as it was,
  so no read sees anything of the failed create. If only \<^verbatim>\<open>db.refresh\<close>, after the commit,
  raises, the method also returns \<^verbatim>\<open>None\<close> without a sink call, and the committed record
  is in the table.
\<close>

theorem create_absent_when_persistence_fails:
  assumes "FeedbackModel_init (lax_int e) (new_feedback_kwargs e user_id form) = Inr feedback"
  shows "(db_raises e Add \<or> db_raises e Commit \<or> fb_id feedback \<in> set (map fb_id tbl)
            \<longrightarrow> insert_new_feedback e tbl user_id form = (Inr None, tbl, []))
       \<and> (\<not> db_raises e Add \<and> \<not> db_raises e Commit
            \<and> fb_id feedback \<notin> set (map fb_id tbl) \<and> db_raises e Refresh
            \<longrightarrow> insert_new_feedback e tbl user_id form = (Inr None, tbl @ [feedback], []))"
  using assms by (auto simp: insert_new_feedback_def persist_def)

text \<open>Claim C2 as amended, at a second create that draws an identifier already in the
  table: the commit is refused and the table keeps its one record.\<close>

theorem create_absent_when_persistence_fails_witness:
  "FeedbackModel_init (lax_int env_ok) (new_feedback_kwargs env_ok ''u2'' scenario_form)
     = Inr ((scenario_feedback 100 100)\<lparr>fb_user_id := ''u2''\<rparr>)
   \<and> fb_id ((scenario_feedback 100 100)\<lparr>fb_user_id := ''u2''\<rparr>)
        \<in> set (map fb_id [scenario_feedback 100 100])
   \<and> insert_new_feedback env_ok [scenario_feedback 100 100] ''u2'' scenario_form
       = (Inr None, [scenario_feedback 100 100], [])"
proof -
  have h: "FeedbackModel_init (lax_int env_ok) (new_feedback_kwargs env_ok ''u2'' scenario_form)
     = Inr ((scenario_feedback 100 100)\<lparr>fb_user_id := ''u2''\<rparr>)"
    by (simp add: scenario_validates env_ok_def scenario_feedback_def)
  have k: "fb_id ((scenario_feedback 100 100)\<lparr>fb_user_id := ''u2''\<rparr>)
        \<in> set (map fb_id [scenario_feedback 100 100])"
    by simp
  show ?thesis
    using create_absent_when_persistence_fails[OF h, of "[scenario_feedback 100 100]"] h k
    by blast
qed

text \<open>Claim C2 as stated fails when the call that raises is \<^verbatim>\<open>db.refresh\<close>: the create
  returns \<^verbatim>\<open>None\<close>, and the record, absent before, is read back afterwards.\<close>

theorem refresh_failure_leaves_record:
  "db_raises env_refresh_fails Refresh
   \<and> insert_new_feedback env_refresh_fails [] ''u1'' scenario_form
       = (Inr None, [scenario_feedback 100 100], [])
   \<and> get_feedback_by_id env_ok [] ''id-1'' = None
   \<and> get_feedback_by_id env_ok [scenario_feedback 100 100] ''id-1''
       = Some (scenario_feedback 100 100)"
  by (simp add: insert_new_feedback_def scenario_validates persist_def
      env_refresh_fails_def env_ok_def get_feedback_by_id_def scenario_feedback_def)

subsection \<open>The scenario of a positive rating\<close>

text \<open>
  Claim C3. For the form of the scenario (type \<^verbatim>\<open>rating\<close>, rating 1, model \<^verbatim>\<open>m1\<close>,
  \<^verbatim>\<open>message_id = msg2\<close>, a snapshot in which \<^verbatim>\<open>msg2\<close> answers \<^verbatim>\<open>msg1\<close>), any user and any
  table, when the session calls and the sink do not raise and the drawn identifier is new:
  the create returns the record it stored, and the sink is called exactly once, with the
  text \<^verbatim>\<open>User: hi\<close>, a line break, \<^verbatim>\<open>Assistant: hello back\<close>, the collection
  \<^verbatim>\<open>conversation_memory_\<close> followed by the user identifier, and the metadata
  \<^verbatim>\<open>{source: feedback, message_id: msg2}\<close>.
\<close>

theorem scenario_ingests_once:
  assumes "\<not> db_raises e Add" and "\<not> db_raises e Commit" and "\<not> db_raises e Refresh"
    and "uuid4 e \<notin> set (map fb_id tbl)"
    and "\<not> pipeline_raises e" and "\<not> add_text_raises e (scenario_call user_id)"
  shows "insert_new_feedback e tbl user_id scenario_form
           = (Inr (Some ((scenario_feedback (time_time e 0) (time_time e 1))
                           \<lparr>fb_id := uuid4 e, fb_user_id := user_id\<rparr>)),
              tbl @ [(scenario_feedback (time_time e 0) (time_time e 1))
                       \<lparr>fb_id := uuid4 e, fb_user_id := user_id\<rparr>],
              [\<lparr>text_arg = ''User: hi'' @ [CHR 0x0A] @ ''Assistant: hello back'',
                collection_name = ''conversation_memory_'' @ user_id,
                metadata = [(''source'', JStr ''feedback''),
                            (''message_id'', JStr ''msg2'')]\<rparr>])"
proof -
  have m: "add_to_memory e user_id scenario_form = (Inr (), [scenario_call user_id])"
    using assms(5,6)
    by (simp add: add_to_memory_def scenario_memory_inputs scenario_excerpt)
  show ?thesis
    using insert_after_persist[OF scenario_validates assms(1-3)] assms(4) m
    by (simp add: scenario_call_def)
qed

text \<open>Claim C3 for user \<^verbatim>\<open>u1\<close> on the empty table.\<close>

theorem scenario_ingests_once_witness:
  "\<not> db_raises env_ok Add \<and> \<not> db_raises env_ok Commit \<and> \<not> db_raises env_ok Refresh
   \<and> uuid4 env_ok \<notin> set (map fb_id [])
   \<and> \<not> pipeline_raises env_ok \<and> \<not> add_text_raises env_ok (scenario_call ''u1'')
   \<and> insert_new_feedback env_ok [] ''u1'' scenario_form
       = (Inr (Some (scenario_feedback 100 100)), [scenario_feedback 100 100],
          [\<lparr>text_arg = ''User: hi'' @ [CHR 0x0A] @ ''Assistant: hello back'',
            collection_name = ''conversation_memory_u1'',
            metadata = [(''source'', JStr ''feedback''),
                        (''message_id'', JStr ''msg2'')]\<rparr>])"
proof -
  have h1: "\<not> db_raises env_ok Add" by (simp add: env_ok_def)
  have h2: "\<not> db_raises env_ok Commit" by (simp add: env_ok_def)
  have h3: "\<not> db_raises env_ok Refresh" by (simp add: env_ok_def)
  have h4: "uuid4 env_ok \<notin> set (map fb_id [])" by simp
  have h5: "\<not> pipeline_raises env_ok" by (simp add: env_ok_def)
  have h6: "\<not> add_text_raises env_ok (scenario_call ''u1'')" by (simp add: env_ok_def)
  show ?thesis
    using scenario_ingests_once[OF h1 h2 h3 h4 h5 h6] h1 h2 h3 h5 h6
    by (simp add: env_ok_def scenario_feedback_def)
qed

subsection \<open>When the sink is not called\<close>

text \<open>
  Claim C4. When \<^verbatim>\<open>data\<close> is absent or its rating is not the integer 1, or the snapshot
  has no (or an empty) \<^verbatim>\<open>chat\<close>, or \<^verbatim>\<open>meta\<close> is absent or has no (or a false)
  \<^verbatim>\<open>message_id\<close>, a create makes no call of the sink, whatever else happens; and if the
  record passes validation and the session calls go through, the create returns the record
  it stored.
\<close>

theorem no_ingestion_without_positive_rating:
  assumes "(\<forall>d. form_data form = Some d \<longrightarrow> rating d \<noteq> Some (RInt 1))
         \<or> (\<forall>s c. form_snapshot form = Some s \<longrightarrow> chat s = Some c \<longrightarrow> c = [])
         \<or> form_meta form = None
         \<or> (\<exists>m. form_meta form = Some m
                \<and> (\<forall>v. map_of m ''message_id'' = Some v \<longrightarrow> \<not> py_truthy v))"
  shows "snd (snd (insert_new_feedback e tbl user_id form)) = []
       \<and> (FeedbackModel_init (lax_int e) (new_feedback_kwargs e user_id form) = Inr feedback
            \<and> \<not> db_raises e Add \<and> \<not> db_raises e Commit \<and> \<not> db_raises e Refresh
            \<and> fb_id feedback \<notin> set (map fb_id tbl)
          \<longrightarrow> insert_new_feedback e tbl user_id form
                = (Inr (Some feedback), tbl @ [feedback], []))"
proof -
  have m: "add_to_memory e user_id form = (Inr (), [])"
    using memory_inputs_None[OF assms] by (rule no_inputs_no_calls)
  have "snd (snd (insert_new_feedback e tbl user_id form)) = []"
    using insert_calls_from_memory[of e tbl user_id form] m by auto
  moreover have "insert_new_feedback e tbl user_id form
                = (Inr (Some feedback), tbl @ [feedback], [])"
    if "FeedbackModel_init (lax_int e) (new_feedback_kwargs e user_id form) = Inr feedback"
      and "\<not> db_raises e Add" and "\<not> db_raises e Commit" and "\<not> db_raises e Refresh"
      and "fb_id feedback \<notin> set (map fb_id tbl)"
    using insert_after_persist[OF that] m by simp
  ultimately show ?thesis by blast
qed

text \<open>Claim C4 at the scenario with a \<^verbatim>\<open>meta\<close> that carries only a chat identifier: the
  create succeeds and the sink is not called.\<close>

theorem no_ingestion_without_positive_rating_witness:
  "form_meta no_message_id_form = Some [(''chat_id'', JStr ''c1'')]
   \<and> map_of [(''chat_id'', JStr ''c1'')] ''message_id'' = None
   \<and> snd (snd (insert_new_feedback env_ok [] ''u1'' no_message_id_form)) = []
   \<and> insert_new_feedback env_ok [] ''u1'' no_message_id_form
       = (Inr (Some ((scenario_feedback 100 100)\<lparr>fb_meta := Some [(''chat_id'', JStr ''c1'')]\<rparr>)),
          [(scenario_feedback 100 100)\<lparr>fb_meta := Some [(''chat_id'', JStr ''c1'')]\<rparr>], [])"
proof -
  have f: "form_meta no_message_id_form = Some [(''chat_id'', JStr ''c1'')]"
    by (simp add: no_message_id_form_def)
  have k: "map_of [(''chat_id'', JStr ''c1'')] ''message_id'' = None" by simp
  have c: "(\<forall>d. form_data no_message_id_form = Some d \<longrightarrow> rating d \<noteq> Some (RInt 1))
         \<or> (\<forall>s c. form_snapshot no_message_id_form = Some s \<longrightarrow> chat s = Some c \<longrightarrow> c = [])
         \<or> form_meta no_message_id_form = None
         \<or> (\<exists>m. form_meta no_message_id_form = Some m
                \<and> (\<forall>v. map_of m ''message_id'' = Some v \<longrightarrow> \<not> py_truthy v))"
    using f k by simp
  have i: "FeedbackModel_init (lax_int env_ok)
             (new_feedback_kwargs env_ok ''u1'' no_message_id_form)
           = Inr ((scenario_feedback 100 100)\<lparr>fb_meta := Some [(''chat_id'', JStr ''c1'')]\<rparr>)"
    by (simp add: FeedbackModel_init_def new_feedback_kwargs_def kwargs_lookup_def
        FeedbackForm_dump_def RatingData_dump_def SnapshotData_dump_def extra_fields_def
        no_message_id_form_def scenario_form_def scenario_feedback_def env_ok_def)
  have d: "\<not> db_raises env_ok Add \<and> \<not> db_raises env_ok Commit \<and> \<not> db_raises env_ok Refresh"
    by (simp add: env_ok_def)
  have n: "fb_id ((scenario_feedback 100 100)\<lparr>fb_meta := Some [(''chat_id'', JStr ''c1'')]\<rparr>)
             \<notin> set (map fb_id [])"
    by simp
  have "snd (snd (insert_new_feedback env_ok [] ''u1'' no_message_id_form)) = []
      \<and> insert_new_feedback env_ok [] ''u1'' no_message_id_form
       = (Inr (Some ((scenario_feedback 100 100)\<lparr>fb_meta := Some [(''chat_id'', JStr ''c1'')]\<rparr>)),
          [] @ [(scenario_feedback 100 100)\<lparr>fb_meta := Some [(''chat_id'', JStr ''c1'')]\<rparr>], [])"
    using no_ingestion_without_positive_rating[OF c, of env_ok "[]" "''u1''"
        "(scenario_feedback 100 100)\<lparr>fb_meta := Some [(''chat_id'', JStr ''c1'')]\<rparr>"] i d n
    by blast
  then show ?thesis using f k by simp
qed

subsection \<open>Timestamps and version of a new record\<close>

text \<open>
  Claim C6, as amended. The record a successful create returns has, as \<^verbatim>\<open>created_at\<close>,
  the first reading of the clock and, as \<^verbatim>\<open>updated_at\<close>, the second one: the two
  fields are equal whenever both readings fall in the same second, and
  \<^verbatim>\<open>created_at\<close> is not later than \<^verbatim>\<open>updated_at\<close> while the clock does not go back.
\<close>

theorem created_timestamps_are_clock_readings:
  assumes "fst (insert_new_feedback e tbl user_id form) = Inr (Some feedback)"
  shows "fb_created_at feedback = time_time e 0 \<and> fb_updated_at feedback = time_time e 1
       \<and> (time_time e 0 = time_time e 1 \<longrightarrow> fb_created_at feedback = fb_updated_at feedback)
       \<and> (time_time e 0 \<le> time_time e 1 \<longrightarrow> fb_created_at feedback \<le> fb_updated_at feedback)"
  using init_timestamps[OF insert_returns_validated[OF assms]] by simp

text \<open>Claim C6 as amended, at the scenario with a clock that stands still.\<close>

theorem created_timestamps_are_clock_readings_witness:
  "fst (insert_new_feedback env_ok [] ''u1'' scenario_form)
     = Inr (Some (scenario_feedback 100 100))
   \<and> time_time env_ok 0 = time_time env_ok 1
   \<and> fb_created_at (scenario_feedback 100 100) = 100
   \<and> fb_updated_at (scenario_feedback 100 100) = 100
   \<and> fb_created_at (scenario_feedback 100 100) = fb_updated_at (scenario_feedback 100 100)"
proof -
  have h: "fst (insert_new_feedback env_ok [] ''u1'' scenario_form)
     = Inr (Some (scenario_feedback 100 100))"
    by (simp add: scenario_insert)
  have t: "time_time env_ok 0 = 100 \<and> time_time env_ok 1 = 100" by (simp add: env_ok_def)
  show ?thesis
    using created_timestamps_are_clock_readings[OF h] h t by simp
qed

text \<open>Claim C6 as stated fails when the second reading of the clock falls into the next
  second: the create succeeds with \<^verbatim>\<open>created_at = 100\<close> and \<^verbatim>\<open>updated_at = 101\<close>.\<close>

theorem timestamps_differ_across_a_tick:
  "insert_new_feedback env_tick [] ''u1'' scenario_form
     = (Inr (Some (scenario_feedback 100 101)), [scenario_feedback 100 101],
        [scenario_call ''u1''])
   \<and> fb_created_at (scenario_feedback 100 101) = 100
   \<and> fb_updated_at (scenario_feedback 100 101) = 101
   \<and> fb_created_at (scenario_feedback 100 101) \<noteq> fb_updated_at (scenario_feedback 100 101)"
  by (simp add: insert_new_feedback_def scenario_validates persist_def add_to_memory_def
      scenario_memory_inputs scenario_excerpt env_tick_def env_ok_def scenario_feedback_def)

text \<open>The version of the rows: updates and deletes never assign it, and a create from a
  form without an extra field named \<^verbatim>\<open>version\<close> stores 0.\<close>

lemma write_row_versions:
  "list_all (\<lambda>r. fb_version r = 0) tbl \<Longrightarrow> fb_version new = 0 \<Longrightarrow>
   list_all (\<lambda>r. fb_version r = 0) (write_row new tbl)"
  by (induction tbl) (auto simp: write_row_def)

lemma find_in_set: "find P xs = Some x \<Longrightarrow> x \<in> set xs"
  by (induction xs) (auto split: if_splits)

lemma writes_keep_version_zero:
  assumes "list_all (\<lambda>r. fb_version r = 0) tbl"
  shows "list_all (\<lambda>r. fb_version r = 0) (snd (update_feedback_by_id e tbl fid form))"
    and "list_all (\<lambda>r. fb_version r = 0)
           (snd (update_feedback_by_id_and_user_id e tbl fid uid form))"
    and "list_all (\<lambda>r. fb_version r = 0) (snd (delete_feedback_by_id e tbl fid))"
    and "list_all (\<lambda>r. fb_version r = 0)
           (snd (delete_feedback_by_id_and_user_id e tbl fid uid))"
    and "list_all (\<lambda>r. fb_version r = 0) (snd (delete_feedbacks_by_user_id e tbl uid))"
    and "list_all (\<lambda>r. fb_version r = 0) (snd (delete_all_feedbacks e tbl))"
    and "map_of (form_extra form) ''version'' = None \<Longrightarrow>
         list_all (\<lambda>r. fb_version r = 0) (fst (snd (insert_new_feedback e tbl uid form)))"
proof -
  have v: "fb_version (update_fields now form fb) = 0" if "find P tbl = Some fb" for P now fb
    using find_in_set[OF that] assms by (simp add: update_fields_frame list_all_iff)
  show "list_all (\<lambda>r. fb_version r = 0) (snd (update_feedback_by_id e tbl fid form))"
    using assms v
    by (auto simp: update_feedback_by_id_def Let_def write_row_versions split: option.splits)
  show "list_all (\<lambda>r. fb_version r = 0)
           (snd (update_feedback_by_id_and_user_id e tbl fid uid form))"
    using assms v
    by (auto simp: update_feedback_by_id_and_user_id_def Let_def write_row_versions
        split: option.splits)
  have d: "list_all (\<lambda>r. fb_version r = 0) (snd (delete_rows e tbl rows))" for rows
    using assms by (auto simp: delete_rows_def list_all_iff)
  show "list_all (\<lambda>r. fb_version r = 0) (snd (delete_feedback_by_id e tbl fid))"
    using assms d by (auto simp: delete_feedback_by_id_def split: option.splits)
  show "list_all (\<lambda>r. fb_version r = 0)
           (snd (delete_feedback_by_id_and_user_id e tbl fid uid))"
    using assms d by (auto simp: delete_feedback_by_id_and_user_id_def split: option.splits)
  show "list_all (\<lambda>r. fb_version r = 0) (snd (delete_feedbacks_by_user_id e tbl uid))"
    using assms d by (auto simp: delete_feedbacks_by_user_id_def)
  show "list_all (\<lambda>r. fb_version r = 0) (snd (delete_all_feedbacks e tbl))"
    using assms d by (auto simp: delete_all_feedbacks_def)
  show "list_all (\<lambda>r. fb_version r = 0) (fst (snd (insert_new_feedback e tbl uid form)))"
    if x: "map_of (form_extra form) ''version'' = None"
    using assms created_version_default[OF x]
    by (auto simp: insert_new_feedback_def persist_def split: sum.splits prod.splits if_splits)
qed

lemma version_form_insert:
  "insert_new_feedback env_ok [] ''u1'' version_form
     = (Inr (Some \<lparr>fb_id = ''id-1'', fb_user_id = ''u1'', fb_version = 5,
                   fb_type = ''rating'', fb_data = None, fb_meta = None,
                   fb_snapshot = None, fb_created_at = 100, fb_updated_at = 100\<rparr>),
        [\<lparr>fb_id = ''id-1'', fb_user_id = ''u1'', fb_version = 5,
          fb_type = ''rating'', fb_data = None, fb_meta = None,
          fb_snapshot = None, fb_created_at = 100, fb_updated_at = 100\<rparr>],
        [])"
  by (simp add: insert_new_feedback_def FeedbackModel_init_def new_feedback_kwargs_def
      kwargs_lookup_def FeedbackForm_dump_def extra_fields_def persist_def
      add_to_memory_def memory_inputs_def env_ok_def version_form_def)

text \<open>
  Claim C8, evaluated where it fails. A form with an extra field \<^verbatim>\<open>version = 5\<close> is
  accepted, and the record created from it on the empty table is stored with version 5:
  the form's dump is spread after \<^verbatim>\<open>"version": 0\<close> and replaces it. The table with
  that record is one the store can reach.
\<close>

theorem version_taken_from_form_extra:
  "insert_new_feedback env_ok [] ''u1'' version_form
     = (Inr (Some \<lparr>fb_id = ''id-1'', fb_user_id = ''u1'', fb_version = 5,
                   fb_type = ''rating'', fb_data = None, fb_meta = None,
                   fb_snapshot = None, fb_created_at = 100, fb_updated_at = 100\<rparr>),
        [\<lparr>fb_id = ''id-1'', fb_user_id = ''u1'', fb_version = 5,
          fb_type = ''rating'', fb_data = None, fb_meta = None,
          fb_snapshot = None, fb_created_at = 100, fb_updated_at = 100\<rparr>],
        [])
   \<and> reachable [\<lparr>fb_id = ''id-1'', fb_user_id = ''u1'', fb_version = 5,
          fb_type = ''rating'', fb_data = None, fb_meta = None,
          fb_snapshot = None, fb_created_at = 100, fb_updated_at = 100\<rparr>]
   \<and> map fb_version (fst (snd (insert_new_feedback env_ok [] ''u1'' version_form))) = [5]"
  using reach_insert[OF reach_empty, of env_ok "''u1''" version_form]
  by (simp add: version_form_insert)

end
